theory Spec2Isabelle
  imports Main "HOL-Library.Word"
begin

unbundle bit_operations_syntax

section \<open>Scalar types of Values.h\<close>

text \<open>
  \<^verbatim>\<open>typedef int8_t container_id\<close>: an 8-bit word, read as two's complement by \<open>sint\<close>.
  \<^verbatim>\<open>typedef uint8_t object_flags_t\<close>: an 8-bit word. The operands of \<open>|\<close>, \<open>&\<close> and
  \<open>==\<close> are promoted to \<open>int\<close> by C++ before the operator is applied; \<open>c_int\<close> is that
  promoted type, and a \<^verbatim>\<open>return\<close> or an argument of type \<open>uint8_t\<close> narrows it again
  (\<open>ucast\<close> in both directions).
\<close>

type_synonym container_id = "8 word"
type_synonym object_flags_t = "8 word"
type_synonym c_int = "32 word"

definition INVALID_ID :: container_id where
  "INVALID_ID = - 1"

definition MAX_CONTAINER_DEPTH :: "8 word" where
  "MAX_CONTAINER_DEPTH = 3"

definition MAX_CONTAINER_ID :: container_id where
  "MAX_CONTAINER_ID = 127"

section \<open>The enumeration ObjectFlags::Enum\<close>

definition ObjectFlags_Object :: c_int where
  "ObjectFlags_Object = 0"

definition ObjectFlags_Value :: c_int where
  "ObjectFlags_Value = 4"

definition ObjectFlags_Container :: c_int where
  "ObjectFlags_Container = 8"

definition ObjectFlags_WritableFlag :: c_int where
  "ObjectFlags_WritableFlag = 1"

definition ObjectFlags_hasStateFlag :: c_int where
  "ObjectFlags_hasStateFlag = 2"

definition ObjectFlags_OpenContainerFlag :: c_int where
  "ObjectFlags_OpenContainerFlag = 1"

definition ObjectFlags_NotLogged :: c_int where
  "ObjectFlags_NotLogged = 16"

definition ObjectFlags_StaticlyAllocated :: c_int where
  "ObjectFlags_StaticlyAllocated = 32"

section \<open>The classes of Values.h and their objectFlags()\<close>

text \<open>
  Each class-qualified function is the body of that class's override:
  \<^verbatim>\<open>Value::objectFlags() { return Object::objectFlags() | ObjectFlags::Value; }\<close>
  calls the base class's function, promotes its result to \<open>int\<close>, ors the enumerator
  and narrows the result to \<open>object_flags_t\<close>.
\<close>

definition Object_objectFlags :: object_flags_t where
  "Object_objectFlags = ucast ObjectFlags_Object"

definition Container_objectFlags :: object_flags_t where
  "Container_objectFlags =
     ucast ((ucast Object_objectFlags :: c_int) OR ObjectFlags_Container)"

definition OpenContainer_objectFlags :: object_flags_t where
  "OpenContainer_objectFlags =
     ucast ((ucast Container_objectFlags :: c_int) OR ObjectFlags_OpenContainerFlag)"

definition Value_objectFlags :: object_flags_t where
  "Value_objectFlags =
     ucast ((ucast Object_objectFlags :: c_int) OR ObjectFlags_Value)"

definition WritableValue_objectFlags :: object_flags_t where
  "WritableValue_objectFlags =
     ucast ((ucast Value_objectFlags :: c_int) OR ObjectFlags_WritableFlag)"

text \<open>
  The classes declared in the header, with the base class each one names.
  \<open>FactoryContainer\<close>, \<open>EepromAwareValue\<close> and \<open>EepromAwareWritableValue\<close> do not
  override \<open>objectFlags()\<close>: a virtual call on them runs the override of their base.
\<close>

datatype cls =
    Object_cls
  | Container_cls
  | FactoryContainer_cls
  | OpenContainer_cls
  | Value_cls
  | WritableValue_cls
  | EepromAwareValue_cls
  | EepromAwareWritableValue_cls

fun base :: "cls \<Rightarrow> cls option" where
  "base Object_cls = None"
| "base Container_cls = Some Object_cls"
| "base FactoryContainer_cls = Some Container_cls"
| "base OpenContainer_cls = Some Container_cls"
| "base Value_cls = Some Object_cls"
| "base WritableValue_cls = Some Value_cls"
| "base EepromAwareValue_cls = Some Value_cls"
| "base EepromAwareWritableValue_cls = Some WritableValue_cls"

text \<open>All classes a class derives from, nearest first.\<close>

fun bases :: "cls \<Rightarrow> cls list" where
  "bases Object_cls = []"
| "bases Container_cls = [Object_cls]"
| "bases FactoryContainer_cls = [Container_cls, Object_cls]"
| "bases OpenContainer_cls = [Container_cls, Object_cls]"
| "bases Value_cls = [Object_cls]"
| "bases WritableValue_cls = [Value_cls, Object_cls]"
| "bases EepromAwareValue_cls = [Value_cls, Object_cls]"
| "bases EepromAwareWritableValue_cls = [WritableValue_cls, Value_cls, Object_cls]"

text \<open>The virtual call \<open>objectFlags()\<close>, resolved by the dynamic class.\<close>

fun cls_objectFlags :: "cls \<Rightarrow> object_flags_t" where
  "cls_objectFlags Object_cls = Object_objectFlags"
| "cls_objectFlags Container_cls = Container_objectFlags"
| "cls_objectFlags FactoryContainer_cls = Container_objectFlags"
| "cls_objectFlags OpenContainer_cls = OpenContainer_objectFlags"
| "cls_objectFlags Value_cls = Value_objectFlags"
| "cls_objectFlags WritableValue_cls = WritableValue_objectFlags"
| "cls_objectFlags EepromAwareValue_cls = Value_objectFlags"
| "cls_objectFlags EepromAwareWritableValue_cls = WritableValue_objectFlags"

text \<open>
  What an \<^verbatim>\<open>Object*\<close> points to, as far as the flag predicates can see it: an object
  whose \<open>objectFlags()\<close> is the one of a class of this header, or an object of a class
  declared elsewhere that overrides \<open>objectFlags()\<close> to report the given value.
  A null pointer is \<open>None\<close>.
\<close>

datatype Object =
    Instance cls
  | Overriding object_flags_t

fun objectFlags :: "Object \<Rightarrow> object_flags_t" where
  "objectFlags (Instance c) = cls_objectFlags c"
| "objectFlags (Overriding f) = f"

section \<open>The flag predicates\<close>

text \<open>
  \<^verbatim>\<open>inline bool hasFlags(uint8_t value, uint8_t flags) { return ((value&flags)==flags); }\<close>
  Both parameters are \<open>uint8_t\<close>; the enumerator passed by the callers is narrowed to it.
\<close>

definition hasFlags :: "8 word \<Rightarrow> 8 word \<Rightarrow> bool" where
  "hasFlags v flags \<longleftrightarrow>
     ((ucast v :: c_int) AND (ucast flags :: c_int)) = (ucast flags :: c_int)"

fun isContainer :: "Object option \<Rightarrow> bool" where
  "isContainer None = False"
| "isContainer (Some o') = hasFlags (objectFlags o') (ucast ObjectFlags_Container)"

fun isOpenContainer :: "Object option \<Rightarrow> bool" where
  "isOpenContainer None = False"
| "isOpenContainer (Some o') =
     hasFlags (objectFlags o')
       (ucast (ObjectFlags_Container OR ObjectFlags_OpenContainerFlag))"

fun isValue :: "Object option \<Rightarrow> bool" where
  "isValue None = False"
| "isValue (Some o') = hasFlags (objectFlags o') (ucast ObjectFlags_Value)"

fun isLoggedValue :: "Object option \<Rightarrow> bool" where
  "isLoggedValue None = False"
| "isLoggedValue (Some o') \<longleftrightarrow>
     ((ucast (objectFlags o') :: c_int) AND (ObjectFlags_Value OR ObjectFlags_NotLogged))
       = ObjectFlags_Value"

fun isDynamicallyAllocated :: "Object option \<Rightarrow> bool" where
  "isDynamicallyAllocated None = False"
| "isDynamicallyAllocated (Some o') \<longleftrightarrow>
     ((ucast (objectFlags o') :: c_int) AND ObjectFlags_StaticlyAllocated) = 0"

fun isWritable :: "Object option \<Rightarrow> bool" where
  "isWritable None = False"
| "isWritable (Some o') = hasFlags (objectFlags o') (ucast ObjectFlags_WritableFlag)"

section \<open>The object store and the containers\<close>

text \<open>
  Objects live in a store. A pointer identifies the object, not the memory it occupies:
  \<^verbatim>\<open>#define new_object(x) new x\<close> creates an object that no earlier pointer
  identifies (\<open>created\<close> counts the objects created so far), and
  \<^verbatim>\<open>#define delete_object(x) delete (x)\<close> ends the life of the object pointed to;
  \<^verbatim>\<open>delete\<close> of a null pointer does nothing. A null pointer is \<open>None\<close>.
\<close>

type_synonym ptr = nat

record store =
  live :: "ptr \<rightharpoonup> Object"
  created :: nat

definition new_object :: "Object \<Rightarrow> store \<Rightarrow> ptr \<times> store" where
  "new_object x s =
     (created s, s\<lparr>live := (live s)(created s \<mapsto> x), created := Suc (created s)\<rparr>)"

definition delete_object :: "ptr option \<Rightarrow> store \<Rightarrow> store" where
  "delete_object x s = (case x of None \<Rightarrow> s | Some p \<Rightarrow> s\<lparr>live := (live s)(p := None)\<rparr>)"

text \<open>
  The virtual member functions of \<open>Container\<close>, \<open>FactoryContainer\<close> and
  \<open>OpenContainer\<close>, with the bodies the header gives them. They are not \<open>const\<close>, so
  each takes the store and returns it; none of them reads a member of the container, so
  the container itself is no argument.
  \<open>FactoryContainer\<close> overrides \<open>returnItem\<close> only and \<open>OpenContainer\<close> overrides
  neither \<open>item\<close>, \<open>returnItem\<close> nor \<open>size\<close>: \<open>item\<close> and \<open>size\<close> of all three
  classes are those of \<open>Container\<close>.
\<close>

definition Container_item :: "container_id \<Rightarrow> store \<Rightarrow> ptr option \<times> store" where
  "Container_item id' s = (None, s)"

definition Container_returnItem :: "container_id \<Rightarrow> ptr option \<Rightarrow> store \<Rightarrow> store" where
  "Container_returnItem id' item s = s"

definition Container_size :: "store \<Rightarrow> container_id \<times> store" where
  "Container_size s = (0, s)"

definition FactoryContainer_returnItem ::
    "container_id \<Rightarrow> ptr option \<Rightarrow> store \<Rightarrow> store" where
  "FactoryContainer_returnItem id' item s = delete_object item s"

definition OpenContainer_add :: "container_id \<Rightarrow> ptr option \<Rightarrow> store \<Rightarrow> bool \<times> store" where
  "OpenContainer_add index item s = (False, s)"

definition OpenContainer_next :: "store \<Rightarrow> container_id \<times> store" where
  "OpenContainer_next s = (- 1, s)"

definition OpenContainer_remove :: "container_id \<Rightarrow> store \<Rightarrow> store" where
  "OpenContainer_remove id' s = s"

text \<open>
  \<open>item\<close> is virtual, and the containers that hold something override it outside the
  sources. Two such overrides follow, each with the \<open>size()\<close> that goes with it.

  Modelled from the spec: the \<open>item()\<close> of a container that keeps its objects resident.
  A container slot is an index-addressable association between a container_id and an
  object, or empty; a valid id satisfies \<open>0 <= id < size()\<close>; \<open>item(id)\<close> returns the
  object at \<open>id\<close>, or null if \<open>id\<close> is out of range or the slot is empty. The slots hold
  the pointers of the installed objects; neither \<open>item\<close> nor \<open>returnItem\<close> is handed
  the means to change them.
\<close>

definition table_size :: "'a list \<Rightarrow> container_id" where
  "table_size t = of_nat (length t)"

definition id_in_range :: "container_id \<Rightarrow> container_id \<Rightarrow> bool" where
  "id_in_range id' n \<longleftrightarrow> 0 \<le> sint id' \<and> sint id' < sint n"

definition resident_item :: "ptr option list \<Rightarrow> container_id \<Rightarrow> store \<Rightarrow> ptr option \<times> store" where
  "resident_item installed id' s =
     (if id_in_range id' (table_size installed) then installed ! nat (sint id') else None, s)"

definition resident_size :: "ptr option list \<Rightarrow> store \<Rightarrow> container_id \<times> store" where
  "resident_size installed s = (table_size installed, s)"

text \<open>
  Modelled from the spec: the \<open>item()\<close> of a container that creates its contained items
  on demand. Values.h gives \<open>FactoryContainer\<close> no \<open>item\<close> of its own; the factories
  that override it are defined outside the sources. Such an \<open>item()\<close> must construct an
  object fresh on each call: \<open>products\<close> says which object each id stands for (none, for
  an id the factory leaves empty).
\<close>

definition on_demand_item ::
    "Object option list \<Rightarrow> container_id \<Rightarrow> store \<Rightarrow> ptr option \<times> store" where
  "on_demand_item products id' s =
     (if id_in_range id' (table_size products)
      then (case products ! nat (sint id') of
              None \<Rightarrow> (None, s)
            | Some x \<Rightarrow> (case new_object x s of (p, s1) \<Rightarrow> (Some p, s1)))
      else (None, s))"

definition on_demand_size :: "Object option list \<Rightarrow> store \<Rightarrow> container_id \<times> store" where
  "on_demand_size products s = (table_size products, s)"

text \<open>
  One borrow: \<open>item(id)\<close>, then at once \<open>returnItem(id, result)\<close> with what \<open>item\<close>
  returned. The \<open>item\<close> and the \<open>returnItem\<close> that run depend on the class of the
  container.
\<close>

definition borrow_and_return ::
    "(container_id \<Rightarrow> store \<Rightarrow> ptr option \<times> store) \<Rightarrow>
     (container_id \<Rightarrow> ptr option \<Rightarrow> store \<Rightarrow> store) \<Rightarrow> container_id \<Rightarrow> store \<Rightarrow> store" where
  "borrow_and_return item returnItem id' s =
     (case item id' s of (r, s1) \<Rightarrow> returnItem id' r s1)"

text \<open>
  Two borrows of the same id: \<open>item(id)\<close>, \<open>returnItem(id, result)\<close>, then \<open>item(id)\<close>
  again. The results of the first and of the second \<open>item(id)\<close>, and the store after
  the second.
\<close>

definition borrow_twice ::
    "(container_id \<Rightarrow> store \<Rightarrow> ptr option \<times> store) \<Rightarrow>
     (container_id \<Rightarrow> ptr option \<Rightarrow> store \<Rightarrow> store) \<Rightarrow> container_id \<Rightarrow> store
       \<Rightarrow> ptr option \<times> ptr option \<times> store" where
  "borrow_twice item returnItem id' s =
     (case item id' s of (r1, s1) \<Rightarrow>
        (case item id' (returnItem id' r1 s1) of (r2, s3) \<Rightarrow> (r1, r2, s3)))"

text \<open>
  What a caller observes of a call \<open>item(id)\<close>: the object it is lent, or nothing.
\<close>

definition lent ::
    "(container_id \<Rightarrow> store \<Rightarrow> ptr option \<times> store) \<Rightarrow> container_id \<Rightarrow> store \<Rightarrow> Object option" where
  "lent item id' s =
     (case item id' s of (r, s1) \<Rightarrow> (case r of None \<Rightarrow> None | Some p \<Rightarrow> live s1 p))"

text \<open>
  The object model that every \<open>item()\<close> works in. In a store in order, every live
  object is one of those created so far. An \<open>item()\<close> keeps the store in order, creates
  objects and forgets none of those created, never brings back to life an object that
  was created and is gone, and what it returns is null or a live object.
\<close>

definition store_ok :: "store \<Rightarrow> bool" where
  "store_ok s \<longleftrightarrow> (\<forall>p \<in> dom (live s). p < created s)"

definition item_respects_store :: "(container_id \<Rightarrow> store \<Rightarrow> ptr option \<times> store) \<Rightarrow> bool" where
  "item_respects_store item \<longleftrightarrow>
     (\<forall>id' s. store_ok s \<longrightarrow>
        store_ok (snd (item id' s)) \<and>
        created s \<le> created (snd (item id' s)) \<and>
        (\<forall>p. p < created s \<and> live s p = None \<longrightarrow> live (snd (item id' s)) p = None) \<and>
        (\<forall>q. fst (item id' s) = Some q \<longrightarrow> q \<in> dom (live (snd (item id' s)))))"

definition empty_store :: store where
  "empty_store = \<lparr>live = Map.empty, created = 0\<rparr>"

text \<open>A store with one value in it, and a container with that value installed at slot 1.\<close>

definition one_value_store :: store where
  "one_value_store = \<lparr>live = [0 \<mapsto> Instance Value_cls], created = 1\<rparr>"

definition example_installed :: "ptr option list" where
  "example_installed = [None, Some 0, None]"

definition example_products :: "Object option list" where
  "example_products = [Some (Instance Value_cls), None]"

section \<open>Values that know where their definition is persisted\<close>

text \<open>
  \<open>eptr_t\<close> is declared in EepromAccess.h, outside this header: it is an integer type
  (the member is initialised with \<open>-1\<close> and \<open>address-1\<close> is computed), taken here as a
  word of any width \<open>'w\<close>. The two classes repeat the same member and functions.
\<close>

record 'eptr EepromAwareValue =
  address :: 'eptr

record 'eptr EepromAwareWritableValue =
  address :: 'eptr

text \<open>The member initialiser \<^verbatim>\<open>eptr_t address = -1;\<close>\<close>

definition EepromAwareValue_init :: "('w::len) word EepromAwareValue" where
  "EepromAwareValue_init = \<lparr>EepromAwareValue.address = - 1\<rparr>"

definition EepromAwareWritableValue_init :: "('w::len) word EepromAwareWritableValue" where
  "EepromAwareWritableValue_init = \<lparr>EepromAwareWritableValue.address = - 1\<rparr>"

text \<open>
  Modelled from the spec: \<open>EepromAccess\<close> (EepromAccess.h is not part of the sources):
  the non-volatile storage accessor, a random-access single-byte read by absolute
  offset; \<open>writeByte\<close> stores one byte at an offset.
\<close>

type_synonym 'eptr EepromAccess = "'eptr \<Rightarrow> 8 word"

definition readByte :: "'eptr EepromAccess \<Rightarrow> 'eptr \<Rightarrow> 8 word" where
  "readByte ea offset = ea offset"

definition writeByte :: "'eptr EepromAccess \<Rightarrow> 'eptr \<Rightarrow> 8 word \<Rightarrow> 'eptr EepromAccess" where
  "writeByte ea offset b = ea(offset := b)"

definition EepromAwareValue_rehydrated ::
    "'w word \<Rightarrow> 'w word EepromAwareValue \<Rightarrow> 'w word EepromAwareValue" where
  "EepromAwareValue_rehydrated a v = v\<lparr>EepromAwareValue.address := a\<rparr>"

definition EepromAwareValue_eeprom_offset :: "'w word EepromAwareValue \<Rightarrow> 'w word" where
  "EepromAwareValue_eeprom_offset v = EepromAwareValue.address v"

definition EepromAwareValue_eepromSize ::
    "('w::len) word EepromAccess \<Rightarrow> 'w word EepromAwareValue \<Rightarrow> 8 word" where
  "EepromAwareValue_eepromSize eepromAccess v =
     readByte eepromAccess (EepromAwareValue.address v - 1)"

definition EepromAwareWritableValue_rehydrated ::
    "'w word \<Rightarrow> 'w word EepromAwareWritableValue \<Rightarrow> 'w word EepromAwareWritableValue" where
  "EepromAwareWritableValue_rehydrated a v = v\<lparr>EepromAwareWritableValue.address := a\<rparr>"

definition EepromAwareWritableValue_eeprom_offset ::
    "'w word EepromAwareWritableValue \<Rightarrow> 'w word" where
  "EepromAwareWritableValue_eeprom_offset v = EepromAwareWritableValue.address v"

definition EepromAwareWritableValue_eepromSize ::
    "('w::len) word EepromAccess \<Rightarrow> 'w word EepromAwareWritableValue \<Rightarrow> 8 word" where
  "EepromAwareWritableValue_eepromSize eepromAccess v =
     readByte eepromAccess (EepromAwareWritableValue.address v - 1)"

text \<open>
  The member functions the header defines for these classes, as calls on one object.
  \<open>address\<close> is private and \<open>rehydrated\<close> is final, so \<open>rehydrated\<close> is the only one
  that writes the member: \<open>eeprom_offset\<close> and \<open>eepromSize\<close> read it,
  \<open>objectFlags\<close> and \<open>prepare\<close> return a constant and \<open>update\<close> has an empty body.
\<close>

datatype 'eptr member_call =
    Call_rehydrated 'eptr
  | Call_eeprom_offset
  | Call_eepromSize "'eptr EepromAccess"
  | Call_objectFlags
  | Call_prepare
  | Call_update

fun EepromAwareValue_call ::
    "'w word member_call \<Rightarrow> 'w word EepromAwareValue \<Rightarrow> 'w word EepromAwareValue" where
  "EepromAwareValue_call (Call_rehydrated a) v = EepromAwareValue_rehydrated a v"
| "EepromAwareValue_call Call_eeprom_offset v = v"
| "EepromAwareValue_call (Call_eepromSize ea) v = v"
| "EepromAwareValue_call Call_objectFlags v = v"
| "EepromAwareValue_call Call_prepare v = v"
| "EepromAwareValue_call Call_update v = v"

fun EepromAwareValue_calls ::
    "'w word member_call list \<Rightarrow> 'w word EepromAwareValue \<Rightarrow> 'w word EepromAwareValue" where
  "EepromAwareValue_calls [] v = v"
| "EepromAwareValue_calls (c # cs) v = EepromAwareValue_calls cs (EepromAwareValue_call c v)"

fun EepromAwareWritableValue_call ::
    "'w word member_call \<Rightarrow> 'w word EepromAwareWritableValue \<Rightarrow> 'w word EepromAwareWritableValue" where
  "EepromAwareWritableValue_call (Call_rehydrated a) v = EepromAwareWritableValue_rehydrated a v"
| "EepromAwareWritableValue_call Call_eeprom_offset v = v"
| "EepromAwareWritableValue_call (Call_eepromSize ea) v = v"
| "EepromAwareWritableValue_call Call_objectFlags v = v"
| "EepromAwareWritableValue_call Call_prepare v = v"
| "EepromAwareWritableValue_call Call_update v = v"

fun EepromAwareWritableValue_calls ::
    "'w word member_call list \<Rightarrow> 'w word EepromAwareWritableValue
       \<Rightarrow> 'w word EepromAwareWritableValue" where
  "EepromAwareWritableValue_calls [] v = v"
| "EepromAwareWritableValue_calls (c # cs) v =
     EepromAwareWritableValue_calls cs (EepromAwareWritableValue_call c v)"

fun is_rehydrated :: "'eptr member_call \<Rightarrow> bool" where
  "is_rehydrated (Call_rehydrated a) = True"
| "is_rehydrated _ = False"

section \<open>SysInfoBlock\<close>

text \<open>
  \<open>cbox::CboxError\<close> is declared outside the sources; SysInfoBlock.h names two of its
  enumerators. \<open>cbox::DataIn\<close> is a sequential byte stream: the bytes still to be read.
  \<open>SysInfoBlock\<close> declares no data member.
\<close>

datatype CboxError = OK | OBJECT_NOT_WRITABLE

type_synonym DataIn = "8 word list"

datatype SysInfoBlock = SysInfoBlock

text \<open>
  \<^verbatim>\<open>CboxError streamFrom(DataIn& in) { return CboxError::OBJECT_NOT_WRITABLE; }\<close>:
  the result code, the object and the stream after the call.
\<close>

definition streamFrom :: "SysInfoBlock \<Rightarrow> DataIn \<Rightarrow> CboxError \<times> SysInfoBlock \<times> DataIn" where
  "streamFrom blk in' = (OBJECT_NOT_WRITABLE, blk, in')"

definition streamPersistedTo :: "SysInfoBlock \<Rightarrow> 8 word list \<Rightarrow> CboxError \<times> 8 word list" where
  "streamPersistedTo blk out = (OK, out)"

section \<open>Id-chain resolution\<close>

text \<open>
  Modelled from the spec: the containers that hold objects. Values.h declares the
  interface only (\<open>Container::item\<close> returns null and \<open>Container::size\<close> returns 0);
  the containers with slots are defined outside the sources. A container slot is an
  index-addressable association between a container_id and an object, or empty; a valid
  id satisfies \<open>0 <= id < size()\<close>; \<open>item(id)\<close> returns the object at \<open>id\<close>, or null
  if \<open>id\<close> is out of range or the slot is empty. A node of the tree is one object with
  the flags it reports and the slots it holds (none, for an object that holds nothing).
\<close>

datatype Node = Node (object: Object) (slots: "Node option list")

definition Node_size :: "Node \<Rightarrow> container_id" where
  "Node_size c = of_nat (length (slots c))"

definition valid_id :: "Node \<Rightarrow> container_id \<Rightarrow> bool" where
  "valid_id c id' \<longleftrightarrow> 0 \<le> sint id' \<and> sint id' < sint (Node_size c)"

definition Node_item :: "Node \<Rightarrow> container_id \<Rightarrow> Node option" where
  "Node_item c id' =
     (if valid_id c id' then slots c ! nat (sint id') else None)"

text \<open>
  Modelled from the spec: \<open>lookupObject\<close>, which Values.h declares and does not define.
  Given a root container and an id chain, resolve step by step: at each level, call
  \<open>item(next_id)\<close> on the current container; if the chain has more ids remaining, the
  retrieved object must itself satisfy \<open>isContainer\<close>, else resolution fails; recurse
  into it as the new current container. Depth is bounded by \<open>MAX_CONTAINER_DEPTH\<close>.
  A failure is the null object. The chain is the list of its ids; with no id at all the
  root itself is addressed.
\<close>

fun resolve :: "Node \<Rightarrow> container_id \<Rightarrow> container_id list \<Rightarrow> Node option" where
  "resolve current next_id [] = Node_item current next_id"
| "resolve current next_id (id' # ids) =
     (case Node_item current next_id of
        None \<Rightarrow> None
      | Some retrieved \<Rightarrow>
          if isContainer (Some (object retrieved)) then resolve retrieved id' ids else None)"

definition lookupObject :: "Node \<Rightarrow> container_id list \<Rightarrow> Node option" where
  "lookupObject root chain =
     (if unat MAX_CONTAINER_DEPTH < length chain then None
      else case chain of [] \<Rightarrow> Some root | id' # ids \<Rightarrow> resolve root id' ids)"

text \<open>
  The cases of the claim about resolution, each read off the tree alone. \<open>addressed\<close>
  follows the ids through the slots and gives the object the chain addresses, if the
  slots on the way hold one. The three predicates say that somewhere along the chain an
  id is out of range for the container reached there, that the slot an id selects in
  range is empty, and that an object which is not a container is reached while ids
  remain.
\<close>

fun addressed :: "Node \<Rightarrow> container_id list \<Rightarrow> Node option" where
  "addressed c [] = Some c"
| "addressed c (id' # ids) =
     (case Node_item c id' of None \<Rightarrow> None | Some n \<Rightarrow> addressed n ids)"

definition depth_exceeded :: "container_id list \<Rightarrow> bool" where
  "depth_exceeded chain \<longleftrightarrow> length chain > 3"

fun id_out_of_range :: "Node \<Rightarrow> container_id list \<Rightarrow> bool" where
  "id_out_of_range c [] = False"
| "id_out_of_range c (id' # ids) =
     (if valid_id c id'
      then (case Node_item c id' of None \<Rightarrow> False | Some n \<Rightarrow> id_out_of_range n ids)
      else True)"

fun slot_empty :: "Node \<Rightarrow> container_id list \<Rightarrow> bool" where
  "slot_empty c [] = False"
| "slot_empty c (id' # ids) =
     (if valid_id c id'
      then (case Node_item c id' of None \<Rightarrow> True | Some n \<Rightarrow> slot_empty n ids)
      else False)"

fun non_container_reached :: "Node \<Rightarrow> container_id list \<Rightarrow> bool" where
  "non_container_reached c [] = False"
| "non_container_reached c (id' # ids) =
     (case Node_item c id' of
        None \<Rightarrow> False
      | Some n \<Rightarrow>
          if ids \<noteq> [] \<and> \<not> isContainer (Some (object n)) then True
          else non_container_reached n ids)"

text \<open>
  The tree of the spec's example: a root of size 3 with a child \<open>OpenContainer\<close> at
  slot 1, and a leaf value at slot 2 of that child. \<open>empty_root\<close> is a root container of
  size 3 with nothing installed.
\<close>

definition example_leaf :: Node where
  "example_leaf = Node (Instance Value_cls) []"

definition example_child :: Node where
  "example_child = Node (Instance OpenContainer_cls) [None, None, Some example_leaf]"

definition example_root :: Node where
  "example_root = Node (Instance Container_cls) [None, Some example_child, None]"

definition empty_root :: Node where
  "empty_root = Node (Instance Container_cls) [None, None, None]"

section \<open>Bits of the masks and of the flags\<close>

lemma bit_int_4: "bit (4 :: int) n \<longleftrightarrow> n = 2"
proof -
  have "(4 :: int) = 2 ^ 2" by simp
  then show ?thesis by (auto simp only: bit_exp_iff possible_bit_int)
qed

lemma bit_int_8: "bit (8 :: int) n \<longleftrightarrow> n = 3"
proof -
  have "(8 :: int) = 2 ^ 3" by simp
  then show ?thesis by (auto simp only: bit_exp_iff possible_bit_int)
qed

lemma bit_int_16: "bit (16 :: int) n \<longleftrightarrow> n = 4"
proof -
  have "(16 :: int) = 2 ^ 4" by simp
  then show ?thesis by (auto simp only: bit_exp_iff possible_bit_int)
qed

lemma bit_int_9: "bit (9 :: int) n \<longleftrightarrow> n = 0 \<or> n = 3"
proof -
  have "(9 :: int) = 1 OR 8" by simp
  then show ?thesis by (auto simp only: bit_or_iff bit_int_8 bit_1_iff)
qed

lemma bit_int_20: "bit (20 :: int) n \<longleftrightarrow> n = 2 \<or> n = 4"
proof -
  have "(20 :: int) = 4 OR 16" by simp
  then show ?thesis by (auto simp only: bit_or_iff bit_int_4 bit_int_16)
qed

lemmas bit_masks = bit_int_4 bit_int_8 bit_int_9 bit_int_16 bit_int_20

lemmas ObjectFlags_defs =
  ObjectFlags_Object_def ObjectFlags_Value_def ObjectFlags_Container_def
  ObjectFlags_WritableFlag_def ObjectFlags_hasStateFlag_def ObjectFlags_OpenContainerFlag_def
  ObjectFlags_NotLogged_def ObjectFlags_StaticlyAllocated_def

lemmas objectFlags_defs =
  Object_objectFlags_def Container_objectFlags_def OpenContainer_objectFlags_def
  Value_objectFlags_def WritableValue_objectFlags_def

lemma narrow_or: "ucast ((ucast (b :: 8 word) :: c_int) OR e) = b OR (ucast e :: 8 word)"
  by (rule bit_eqI) (auto simp add: bit_simps)

lemma hasFlags_bits: "hasFlags v f \<longleftrightarrow> (\<forall>n. bit f n \<longrightarrow> bit v n)"
proof
  assume h: "hasFlags v f"
  show "\<forall>n. bit f n \<longrightarrow> bit v n"
  proof (intro allI impI)
    fix n assume b: "bit f n"
    then have n: "n < 8" using bit_imp_le_length [of f n] by simp
    from h have "bit ((ucast v :: c_int) AND (ucast f :: c_int)) n = bit (ucast f :: c_int) n"
      by (simp add: hasFlags_def)
    with b n show "bit v n" by (simp add: bit_simps)
  qed
next
  assume h: "\<forall>n. bit f n \<longrightarrow> bit v n"
  show "hasFlags v f"
    unfolding hasFlags_def
    by (rule bit_eqI) (use h in \<open>auto simp add: bit_simps\<close>)
qed

lemma hasFlags_and: "hasFlags v f \<longleftrightarrow> v AND f = f"
  unfolding hasFlags_bits
proof
  assume "\<forall>n. bit f n \<longrightarrow> bit v n"
  then show "v AND f = f" by (auto simp add: bit_eq_iff bit_simps)
next
  assume "v AND f = f"
  then have "\<And>n. bit (v AND f) n = bit f n" by simp
  then show "\<forall>n. bit f n \<longrightarrow> bit v n" by (simp only: bit_and_iff) blast
qed

lemma isContainer_bit: "isContainer (Some x) \<longleftrightarrow> bit (objectFlags x) 3"
  by (simp add: hasFlags_bits ObjectFlags_Container_def bit_masks)

lemma isOpenContainer_bits:
  "isOpenContainer (Some x) \<longleftrightarrow> bit (objectFlags x) 3 \<and> bit (objectFlags x) 0"
  by (auto simp add: hasFlags_bits ObjectFlags_Container_def ObjectFlags_OpenContainerFlag_def
      bit_masks)

lemma isValue_bit: "isValue (Some x) \<longleftrightarrow> bit (objectFlags x) 2"
  by (simp add: hasFlags_bits ObjectFlags_Value_def bit_masks)

lemma isWritable_bit: "isWritable (Some x) \<longleftrightarrow> bit (objectFlags x) 0"
  by (simp add: hasFlags_bits ObjectFlags_WritableFlag_def bit_1_iff)

lemma isLoggedValue_bits:
  "isLoggedValue (Some x) \<longleftrightarrow> bit (objectFlags x) 2 \<and> \<not> bit (objectFlags x) 4"
proof
  assume "isLoggedValue (Some x)"
  then have e: "\<And>n. bit ((ucast (objectFlags x) :: c_int) AND 20) n = bit (4 :: c_int) n"
    by (simp add: ObjectFlags_Value_def ObjectFlags_NotLogged_def)
  from e [of 2] e [of 4] show "bit (objectFlags x) 2 \<and> \<not> bit (objectFlags x) 4"
    by (simp add: bit_simps bit_masks)
next
  assume h: "bit (objectFlags x) 2 \<and> \<not> bit (objectFlags x) 4"
  have "(ucast (objectFlags x) :: c_int) AND 20 = 4"
    by (rule bit_eqI) (use h in \<open>auto simp add: bit_simps bit_masks\<close>)
  then show "isLoggedValue (Some x)"
    by (simp add: ObjectFlags_Value_def ObjectFlags_NotLogged_def)
qed

text \<open>\<open>bases\<close> lists the chain of \<open>base\<close> classes.\<close>

lemma bases_base: "bases c = (case base c of None \<Rightarrow> [] | Some b \<Rightarrow> b # bases b)"
  by (cases c) simp_all

text \<open>
  A class that does not override \<open>objectFlags()\<close> reports the flags of its base.
\<close>

lemma objectFlags_inherited:
  "cls_objectFlags FactoryContainer_cls = cls_objectFlags Container_cls"
  "cls_objectFlags EepromAwareValue_cls = cls_objectFlags Value_cls"
  "cls_objectFlags EepromAwareWritableValue_cls = cls_objectFlags WritableValue_cls"
  by simp_all

lemma objectFlags_values:
  "Object_objectFlags = 0" "Container_objectFlags = 8" "OpenContainer_objectFlags = 9"
  "Value_objectFlags = 4" "WritableValue_objectFlags = 5"
  by (simp_all add: objectFlags_defs ObjectFlags_defs)

section \<open>The flag predicates test bits\<close>

text \<open>
  Claim C1. For every non-null object \<open>x\<close>: \<open>isContainer\<close> holds iff the Container bit
  (bit 3, value 8) is set in the flags \<open>x\<close> reports; \<open>isOpenContainer\<close> holds iff both
  the Container bit and the OpenContainer bit (bit 0) are set, every required bit being
  tested; \<open>isLoggedValue\<close> holds iff the Value bit (bit 2) is set and the NotLogged bit
  (bit 4) is clear. The last four conjuncts say which bit each enumerator is.
\<close>

theorem flag_predicates_test_bits:
  "(isContainer (Some x) \<longleftrightarrow> bit (objectFlags x) 3) \<and>
   (isOpenContainer (Some x) \<longleftrightarrow> bit (objectFlags x) 3 \<and> bit (objectFlags x) 0) \<and>
   (isLoggedValue (Some x) \<longleftrightarrow> bit (objectFlags x) 2 \<and> \<not> bit (objectFlags x) 4) \<and>
   ObjectFlags_Container = 2 ^ 3 \<and> ObjectFlags_OpenContainerFlag = 2 ^ 0 \<and>
   ObjectFlags_Value = 2 ^ 2 \<and> ObjectFlags_NotLogged = 2 ^ 4"
  by (simp only: isContainer_bit isOpenContainer_bits isLoggedValue_bits ObjectFlags_defs) simp

text \<open>
  At flags 12 (Container and Value) the object is a container and a logged value and
  not an open container; at flags 20 (Value and NotLogged) it is not a logged value.
\<close>

theorem flag_predicates_test_bits_witness:
  "isContainer (Some (Overriding 12)) \<and> \<not> isOpenContainer (Some (Overriding 12)) \<and>
   isLoggedValue (Some (Overriding 12)) \<and> \<not> isLoggedValue (Some (Overriding 20))"
  using flag_predicates_test_bits [of "Overriding 12"] flag_predicates_test_bits [of "Overriding 20"]
  by (simp add: ObjectFlags_defs)

text \<open>
  One of the two bits is not enough for \<open>isOpenContainer\<close>: a plain container has the
  Container bit only, a writable value has bit 0 only.
\<close>

lemma isOpenContainer_needs_both_bits:
  "\<not> isOpenContainer (Some (Instance Container_cls)) \<and>
   \<not> isOpenContainer (Some (Instance WritableValue_cls)) \<and>
   isOpenContainer (Some (Instance OpenContainer_cls))"
  by (simp add: hasFlags_and objectFlags_values ObjectFlags_defs)

section \<open>Composition of the flags\<close>

text \<open>
  Claim C2. The flags a derived layer reports are the bitwise or of the flags of its
  base layer and its own bits: \<open>Value\<close> reports the flags of \<open>Object\<close> or the Value bit,
  \<open>WritableValue\<close> those of \<open>Value\<close> or \<open>WritableFlag\<close>, \<open>Container\<close> those of
  \<open>Object\<close> or the Container bit, and \<open>OpenContainer\<close> those of \<open>Container\<close> or
  \<open>OpenContainerFlag\<close>. Narrowing the promoted result to 8 bits loses nothing.
\<close>

theorem objectFlags_composition:
  "cls_objectFlags Value_cls = cls_objectFlags Object_cls OR ucast ObjectFlags_Value \<and>
   cls_objectFlags WritableValue_cls = cls_objectFlags Value_cls OR ucast ObjectFlags_WritableFlag \<and>
   cls_objectFlags Container_cls = cls_objectFlags Object_cls OR ucast ObjectFlags_Container \<and>
   cls_objectFlags OpenContainer_cls
     = cls_objectFlags Container_cls OR ucast ObjectFlags_OpenContainerFlag"
  by (simp only: cls_objectFlags.simps Container_objectFlags_def OpenContainer_objectFlags_def
      Value_objectFlags_def WritableValue_objectFlags_def narrow_or)

section \<open>WritableFlag and OpenContainerFlag are the same bit\<close>

text \<open>
  Claim C10. \<open>WritableFlag\<close> and \<open>OpenContainerFlag\<close> have the same value 1, so every
  object that reports the flags of \<open>OpenContainer\<close> (Container bit or
  \<open>OpenContainerFlag\<close>, value 9) satisfies \<open>isWritable\<close>, although it does not satisfy
  \<open>isValue\<close> and \<open>OpenContainer\<close> is not derived from \<open>WritableValue\<close>.
\<close>

theorem OpenContainer_flags_are_writable:
  "objectFlags x = OpenContainer_objectFlags \<Longrightarrow>
     isWritable (Some x) \<and> \<not> isValue (Some x) \<and>
     ObjectFlags_WritableFlag = ObjectFlags_OpenContainerFlag \<and>
     ObjectFlags_WritableFlag = 1 \<and>
     OpenContainer_objectFlags = 9 \<and>
     WritableValue_cls \<notin> set (OpenContainer_cls # bases OpenContainer_cls)"
  by (simp add: hasFlags_and objectFlags_values ObjectFlags_defs)

text \<open>An \<open>OpenContainer\<close> itself is such an object.\<close>

theorem OpenContainer_flags_are_writable_witness:
  "objectFlags (Instance OpenContainer_cls) = OpenContainer_objectFlags \<and>
   isWritable (Some (Instance OpenContainer_cls)) \<and>
   \<not> isValue (Some (Instance OpenContainer_cls))"
  using OpenContainer_flags_are_writable [of "Instance OpenContainer_cls"]
  by (simp add: ObjectFlags_defs)

section \<open>Borrowing from a container\<close>

lemma delete_object_null: "delete_object None s = s"
  by (simp add: delete_object_def)

lemma dom_delete_object: "dom (live (delete_object (Some p) s)) = dom (live s) - {p}"
  by (auto simp add: delete_object_def)

lemma Container_item_null: "Container_item j s = (None, s)"
  by (simp add: Container_item_def)

lemma new_then_delete:
  assumes "store_ok s" and "new_object x s = (p, s1)"
  shows "live (delete_object (Some p) s1) = live s"
    and "store_ok (delete_object (Some p) s1)"
proof -
  from assms(1) have "created s \<notin> dom (live s)"
    by (auto simp add: store_ok_def)
  then have "(live s)(created s := None) = live s"
    by (auto simp add: fun_upd_idem_iff)
  with assms(2) show "live (delete_object (Some p) s1) = live s"
    by (auto simp add: new_object_def delete_object_def)
  from assms show "store_ok (delete_object (Some p) s1)"
    by (auto simp add: store_ok_def new_object_def delete_object_def less_Suc_eq)
qed

lemma resident_borrow_and_return:
  "borrow_and_return (resident_item installed) Container_returnItem id' s = s"
  by (simp add: borrow_and_return_def resident_item_def Container_returnItem_def)

lemma on_demand_borrow_and_return_live:
  assumes "store_ok s"
  shows "live (borrow_and_return (on_demand_item products) FactoryContainer_returnItem id' s)
           = live s"
    and "store_ok (borrow_and_return (on_demand_item products) FactoryContainer_returnItem id' s)"
  using assms
  by (auto simp add: borrow_and_return_def on_demand_item_def FactoryContainer_returnItem_def
      delete_object_null new_then_delete split: option.splits prod.splits)

lemma lent_on_demand:
  "lent (on_demand_item products) j s =
     (if id_in_range j (table_size products) then products ! nat (sint j) else None)"
  by (simp add: lent_def on_demand_item_def new_object_def split: option.splits)

text \<open>
  Claim C7. For every valid id \<open>0 <= id < size()\<close> of a container, \<open>item(id)\<close>
  followed at once by \<open>returnItem(id, result)\<close> leaves the externally observable state
  of the container unchanged: \<open>size()\<close> and the results of future \<open>item\<close> calls.
  For a container that keeps its objects resident, with the \<open>returnItem\<close> of
  \<open>Container\<close>, the store is the same afterwards. For a factory, with the
  \<open>returnItem\<close> of \<open>FactoryContainer\<close>, the live objects are the same afterwards and
  every later \<open>item\<close> call lends the object it would have lent before; the pointer to
  it is a new one at every call, borrowed before or not. The first two conjuncts are the
  \<open>item\<close> of the header itself, which lends nothing, at any id.
\<close>

theorem borrow_and_return_leaves_state:
  "borrow_and_return Container_item Container_returnItem id' s = s \<and>
   borrow_and_return Container_item FactoryContainer_returnItem id' s = s \<and>
   (id_in_range id' (fst (resident_size installed s)) \<longrightarrow>
      borrow_and_return (resident_item installed) Container_returnItem id' s = s \<and>
      fst (resident_size installed
             (borrow_and_return (resident_item installed) Container_returnItem id' s))
        = fst (resident_size installed s) \<and>
      (\<forall>j. fst (resident_item installed j
                   (borrow_and_return (resident_item installed) Container_returnItem id' s))
             = fst (resident_item installed j s))) \<and>
   (id_in_range id' (fst (on_demand_size products s)) \<longrightarrow> store_ok s \<longrightarrow>
      live (borrow_and_return (on_demand_item products) FactoryContainer_returnItem id' s)
        = live s \<and>
      fst (on_demand_size products
             (borrow_and_return (on_demand_item products) FactoryContainer_returnItem id' s))
        = fst (on_demand_size products s) \<and>
      (\<forall>j. lent (on_demand_item products) j
                (borrow_and_return (on_demand_item products) FactoryContainer_returnItem id' s)
             = lent (on_demand_item products) j s))"
proof -
  have a: "borrow_and_return Container_item Container_returnItem id' s = s"
    by (simp add: borrow_and_return_def Container_item_null Container_returnItem_def)
  have b: "borrow_and_return Container_item FactoryContainer_returnItem id' s = s"
    by (simp add: borrow_and_return_def Container_item_null FactoryContainer_returnItem_def
        delete_object_null)
  show ?thesis
    by (simp add: a b resident_borrow_and_return on_demand_borrow_and_return_live
        lent_on_demand on_demand_size_def)
qed

lemmas store_example_defs =
  one_value_store_def example_installed_def example_products_def empty_store_def
  id_in_range_def table_size_def

text \<open>
  Slot 1 of the example container holds the object 0, which is borrowed and returned;
  id 0 of the example factory yields a new value, the object 1, which is borrowed and
  destroyed.
\<close>

theorem borrow_and_return_leaves_state_witness:
  "id_in_range 1 (fst (resident_size example_installed one_value_store)) \<and>
   fst (resident_item example_installed 1 one_value_store) = Some 0 \<and>
   borrow_and_return (resident_item example_installed) Container_returnItem 1 one_value_store
     = one_value_store \<and>
   id_in_range 0 (fst (on_demand_size example_products one_value_store)) \<and>
   store_ok one_value_store \<and>
   fst (on_demand_item example_products 0 one_value_store) = Some 1 \<and>
   live (borrow_and_return (on_demand_item example_products) FactoryContainer_returnItem 0
          one_value_store) = live one_value_store \<and>
   lent (on_demand_item example_products) 0
     (borrow_and_return (on_demand_item example_products) FactoryContainer_returnItem 0
        one_value_store) = Some (Instance Value_cls)"
  using borrow_and_return_leaves_state
    [of 1 one_value_store example_installed example_products]
    borrow_and_return_leaves_state
    [of 0 one_value_store example_installed example_products]
  by (simp add: store_example_defs resident_size_def on_demand_size_def resident_item_def
      on_demand_item_def new_object_def store_ok_def lent_on_demand)

text \<open>
  The \<open>returnItem\<close> matters: the one of \<open>FactoryContainer\<close> destroys the object a
  resident container lent, and the one of \<open>Container\<close> leaves the object a factory
  made in the store.
\<close>

lemma returnItem_must_match_item:
  "live (borrow_and_return (resident_item example_installed) FactoryContainer_returnItem 1
           one_value_store) 0 = None \<and>
   dom (live (borrow_and_return (on_demand_item example_products) Container_returnItem 0
           one_value_store)) = {0, 1}"
  by (auto simp add: borrow_and_return_def store_example_defs resident_item_def on_demand_item_def
      new_object_def FactoryContainer_returnItem_def Container_returnItem_def delete_object_def)

text \<open>
  Claim C8. For every id with \<open>id >= size()\<close> or \<open>id < 0\<close>, \<open>Container::item(id)\<close>
  returns null. The ids are compared as signed values.
\<close>

theorem Container_item_out_of_range:
  "sint (fst (Container_size s)) \<le> sint id' \<or> sint id' < 0 \<Longrightarrow>
     fst (Container_item id' s) = None"
  by (simp add: Container_item_def)

text \<open>The ids 5 (not below the size 0) and -1 (negative).\<close>

theorem Container_item_out_of_range_witness:
  "(sint (fst (Container_size empty_store)) \<le> sint (5 :: container_id)
      \<or> sint (5 :: container_id) < 0) \<and>
   fst (Container_item 5 empty_store) = None \<and>
   (sint (fst (Container_size empty_store)) \<le> sint (- 1 :: container_id)
      \<or> sint (- 1 :: container_id) < 0) \<and>
   fst (Container_item (- 1) empty_store) = None"
  using Container_item_out_of_range [of empty_store 5]
    Container_item_out_of_range [of empty_store "- 1"]
  by (simp add: Container_size_def)

lemma Container_item_respects_store: "item_respects_store Container_item"
  by (simp add: item_respects_store_def Container_item_def)

lemma on_demand_item_respects_store: "item_respects_store (on_demand_item products)"
  unfolding item_respects_store_def
proof (intro allI impI)
  fix id' s
  assume ok: "store_ok s"
  show "store_ok (snd (on_demand_item products id' s)) \<and>
        created s \<le> created (snd (on_demand_item products id' s)) \<and>
        (\<forall>p. p < created s \<and> live s p = None \<longrightarrow>
             live (snd (on_demand_item products id' s)) p = None) \<and>
        (\<forall>q. fst (on_demand_item products id' s) = Some q \<longrightarrow>
             q \<in> dom (live (snd (on_demand_item products id' s))))"
    using ok
    by (auto simp add: on_demand_item_def new_object_def store_ok_def less_Suc_eq
        split: option.splits)
qed

lemma store_ok_delete_object: "store_ok s \<Longrightarrow> store_ok (delete_object x s)"
  by (cases x) (auto simp add: store_ok_def delete_object_def split: if_splits)

text \<open>
  Claim C5. \<open>FactoryContainer::returnItem(id, item)\<close> destroys the item passed: the
  object is no longer in the store afterwards, and it is the only one that left. Two
  successive borrows of one id from a \<open>FactoryContainer\<close>, \<open>item(id)\<close>,
  \<open>returnItem(id, result)\<close>, then \<open>item(id)\<close> again, never return the same object the
  second time, whatever \<open>item\<close> the factory has: the object lent first is destroyed
  when it is returned, and the second call returns null or a live object.
\<close>

theorem FactoryContainer_returnItem_destroys:
  "p \<notin> dom (live (FactoryContainer_returnItem id' (Some p) s)) \<and>
   dom (live (FactoryContainer_returnItem id' (Some p) s)) = dom (live s) - {p} \<and>
   (item_respects_store item \<longrightarrow> store_ok s \<longrightarrow>
      (case borrow_twice item FactoryContainer_returnItem id' s of
         (r1, r2, s3) \<Rightarrow> \<not> (\<exists>q. r1 = Some q \<and> r2 = Some q)))"
proof -
  have a: "dom (live (FactoryContainer_returnItem id' (Some p) s)) = dom (live s) - {p}"
    by (simp add: FactoryContainer_returnItem_def dom_delete_object)
  have c: "\<not> (\<exists>q. r1 = Some q \<and> r2 = Some q)"
    if resp: "item_respects_store item" and ok: "store_ok s"
      and bt: "borrow_twice item FactoryContainer_returnItem id' s = (r1, r2, s3)"
    for r1 r2 s3
  proof
    assume "\<exists>q. r1 = Some q \<and> r2 = Some q"
    then obtain q where r1: "r1 = Some q" and r2: "r2 = Some q" by blast
    define s1 where "s1 = snd (item id' s)"
    define s2 where "s2 = FactoryContainer_returnItem id' r1 s1"
    from bt have f1: "fst (item id' s) = r1" and f2: "fst (item id' s2) = r2"
      and f3: "snd (item id' s2) = s3"
      by (auto simp add: borrow_twice_def s1_def s2_def split: prod.splits)
    from resp ok have ok1: "store_ok s1" and l1: "q \<in> dom (live s1)"
      using f1 r1 by (auto simp add: item_respects_store_def s1_def)
    from ok1 l1 have lt: "q < created s1" by (auto simp add: store_ok_def)
    have gone: "live s2 q = None" and cr: "created s2 = created s1"
      by (simp_all add: s2_def r1 FactoryContainer_returnItem_def delete_object_def)
    have ok2: "store_ok s2"
      using ok1 by (simp add: s2_def FactoryContainer_returnItem_def store_ok_delete_object)
    from resp ok2 have
      still: "\<forall>p. p < created s2 \<and> live s2 p = None \<longrightarrow> live (snd (item id' s2)) p = None"
      and lv: "\<forall>q'. fst (item id' s2) = Some q' \<longrightarrow> q' \<in> dom (live (snd (item id' s2)))"
      by (auto simp add: item_respects_store_def)
    from still lt cr gone have "live (snd (item id' s2)) q = None" by simp
    moreover from lv f2 r2 have "q \<in> dom (live (snd (item id' s2)))" by simp
    ultimately show False by auto
  qed
  show ?thesis
    using a c by (auto split: prod.splits)
qed

text \<open>
  The example factory, in a store that holds the object 0 already, lends the object 1
  and then the object 2; the object 1 is gone by then.
\<close>

theorem FactoryContainer_returnItem_destroys_witness:
  "item_respects_store (on_demand_item example_products) \<and> store_ok one_value_store \<and>
   borrow_twice (on_demand_item example_products) FactoryContainer_returnItem 0 one_value_store
     = (Some 1, Some 2,
        \<lparr>live = [0 \<mapsto> Instance Value_cls, 2 \<mapsto> Instance Value_cls], created = 3\<rparr>) \<and>
   0 \<notin> dom (live (FactoryContainer_returnItem 0 (Some 0) one_value_store))"
  using FactoryContainer_returnItem_destroys
    [of 0 0 one_value_store "on_demand_item example_products"]
    on_demand_item_respects_store [of example_products]
  by (auto simp add: borrow_twice_def on_demand_item_def new_object_def store_ok_def
      FactoryContainer_returnItem_def delete_object_def store_example_defs)

text \<open>
  It is the destruction that makes the difference: a resident container, whose
  \<open>returnItem\<close> keeps the object, lends the same object twice. The \<open>item\<close> that
  \<open>FactoryContainer\<close> inherits lends nothing at all.
\<close>

lemma keeping_returnItem_lends_same_object:
  "borrow_twice (resident_item example_installed) Container_returnItem 1 one_value_store
     = (Some 0, Some 0, one_value_store)"
  by (simp add: borrow_twice_def resident_item_def Container_returnItem_def store_example_defs)

lemma inherited_item_lends_nothing:
  "borrow_twice Container_item FactoryContainer_returnItem id' s = (None, None, s)"
  by (simp add: borrow_twice_def Container_item_null FactoryContainer_returnItem_def
      delete_object_null)

section \<open>The persisted address\<close>

lemma EepromAwareValue_call_keeps:
  "\<not> is_rehydrated c \<Longrightarrow> EepromAwareValue_call c v = v"
  by (cases c) simp_all

lemma EepromAwareWritableValue_call_keeps:
  "\<not> is_rehydrated c \<Longrightarrow> EepromAwareWritableValue_call c v = v"
  by (cases c) simp_all

lemma EepromAwareValue_calls_keep:
  "\<forall>c \<in> set cs. \<not> is_rehydrated c \<Longrightarrow> EepromAwareValue_calls cs v = v"
  by (induction cs arbitrary: v) (simp_all add: EepromAwareValue_call_keeps)

lemma EepromAwareWritableValue_calls_keep:
  "\<forall>c \<in> set cs. \<not> is_rehydrated c \<Longrightarrow> EepromAwareWritableValue_calls cs v = v"
  by (induction cs arbitrary: v) (simp_all add: EepromAwareWritableValue_call_keeps)

text \<open>
  Claim C4. \<open>rehydrated\<close> is called once, at most, in the life of an object. Once
  \<open>rehydrated(a)\<close> has been invoked on an \<open>EepromAwareValue\<close> or an
  \<open>EepromAwareWritableValue\<close>, the stored address is fixed: \<open>eeprom_offset()\<close> returns
  \<open>a\<close> after every subsequent sequence of operations on the object, none of which is
  a further \<open>rehydrated\<close>.
\<close>

theorem eeprom_offset_fixed_until_rehydrated_again:
  "\<forall>c \<in> set cs. \<not> is_rehydrated c \<Longrightarrow>
     EepromAwareValue_eeprom_offset
       (EepromAwareValue_calls cs (EepromAwareValue_rehydrated a v)) = a \<and>
     EepromAwareWritableValue_eeprom_offset
       (EepromAwareWritableValue_calls cs (EepromAwareWritableValue_rehydrated a w)) = a"
  by (simp add: EepromAwareValue_calls_keep EepromAwareWritableValue_calls_keep
      EepromAwareValue_eeprom_offset_def EepromAwareValue_rehydrated_def
      EepromAwareWritableValue_eeprom_offset_def EepromAwareWritableValue_rehydrated_def)

text \<open>Four calls that are not \<open>rehydrated\<close>, after \<open>rehydrated(101)\<close>.\<close>

theorem eeprom_offset_fixed_until_rehydrated_again_witness:
  "EepromAwareValue_eeprom_offset
     (EepromAwareValue_calls [Call_update, Call_eeprom_offset, Call_prepare, Call_objectFlags]
        (EepromAwareValue_rehydrated 101 EepromAwareValue_init)) = (101 :: 16 word) \<and>
   EepromAwareWritableValue_eeprom_offset
     (EepromAwareWritableValue_calls [Call_update, Call_eeprom_offset, Call_prepare, Call_objectFlags]
        (EepromAwareWritableValue_rehydrated 101 EepromAwareWritableValue_init)) = (101 :: 16 word)"
  using eeprom_offset_fixed_until_rehydrated_again
    [of "[Call_update, Call_eeprom_offset, Call_prepare, Call_objectFlags]"
        "101 :: 16 word" EepromAwareValue_init EepromAwareWritableValue_init]
  by simp

text \<open>
  Claim C6. For a value whose address has been set to \<open>a\<close> by \<open>rehydrated\<close>,
  \<open>eepromSize(eepromAccess)\<close> returns the byte stored at offset \<open>a - 1\<close> (computed in
  \<open>eptr_t\<close>, so the offset before 0 is the last one); with the length byte 5 written at
  offset 100 and the address set to 101, \<open>eepromSize\<close> returns 5. Both classes.
\<close>

theorem eepromSize_reads_length_byte:
  "EepromAwareValue_eepromSize ea (EepromAwareValue_rehydrated a v) = readByte ea (a - 1) \<and>
   EepromAwareWritableValue_eepromSize ea (EepromAwareWritableValue_rehydrated a w)
     = readByte ea (a - 1) \<and>
   EepromAwareValue_eepromSize (writeByte ea 100 5) (EepromAwareValue_rehydrated 101 v) = 5 \<and>
   EepromAwareWritableValue_eepromSize (writeByte ea 100 5)
     (EepromAwareWritableValue_rehydrated 101 w) = 5"
  by (simp add: EepromAwareValue_eepromSize_def EepromAwareValue_rehydrated_def
      EepromAwareWritableValue_eepromSize_def EepromAwareWritableValue_rehydrated_def
      readByte_def writeByte_def)

section \<open>SysInfoBlock is not writable\<close>

text \<open>
  Claim C9. \<open>SysInfoBlock::streamFrom\<close> returns the result code
  \<open>OBJECT_NOT_WRITABLE\<close> for every input stream, as a value; the object and the
  stream are left as they were.
\<close>

theorem streamFrom_not_writable:
  "streamFrom blk in' = (OBJECT_NOT_WRITABLE, blk, in') \<and>
   fst (streamFrom blk in') \<noteq> OK"
  by (simp add: streamFrom_def)

section \<open>Id-chain resolution\<close>

lemma sint_le_uint: "sint (w :: 'a::len word) \<le> uint w"
proof -
  have "- (2 ^ (LENGTH('a) - 1)) \<le> uint w"
    by (rule order_trans [of _ 0]) simp_all
  then show ?thesis
    by (simp add: sint_uint signed_take_bit_int_less_eq_self_iff)
qed

lemma sint_of_nat_le: "sint (of_nat n :: 'a::len word) \<le> int n"
proof -
  have "sint (of_nat n :: 'a word) \<le> uint (of_nat n :: 'a word)" by (rule sint_le_uint)
  also have "\<dots> = int (n mod 2 ^ LENGTH('a))"
    by (simp add: uint_nat unat_of_nat)
  also have "\<dots> \<le> int n" by simp
  finally show ?thesis .
qed

text \<open>A valid id indexes an existing slot, so \<open>Node_item\<close> never reads past the slots.\<close>

lemma valid_id_in_bounds:
  assumes "valid_id c i"
  shows "nat (sint i) < length (slots c)"
proof -
  from assms have a: "0 \<le> sint i" and b: "sint i < sint (of_nat (length (slots c)) :: 8 word)"
    by (simp_all add: valid_id_def Node_size_def)
  have "sint (of_nat (length (slots c)) :: 8 word) \<le> int (length (slots c))"
    by (rule sint_of_nat_le)
  with a b show ?thesis by linarith
qed

lemma Node_item_invalid: "\<not> valid_id c i \<Longrightarrow> Node_item c i = None"
  by (simp add: Node_item_def)

lemma Node_item_out_of_range:
  "sint (Node_size c) \<le> sint i \<or> sint i < 0 \<Longrightarrow> Node_item c i = None"
  by (rule Node_item_invalid) (auto simp add: valid_id_def)

lemma resolve_cases:
  "resolve c i ids =
     (if id_out_of_range c (i # ids) \<or> slot_empty c (i # ids)
         \<or> non_container_reached c (i # ids)
      then None else addressed c (i # ids))"
proof (induction ids arbitrary: c i)
  case Nil
  show ?case
    by (cases "valid_id c i") (auto simp add: Node_item_invalid split: option.splits)
next
  case (Cons j more)
  show ?case
  proof (cases "Node_item c i")
    case None
    then show ?thesis by (cases "valid_id c i") simp_all
  next
    case (Some n)
    then have v: "valid_id c i" using Node_item_invalid [of c i] by auto
    show ?thesis
    proof (cases "isContainer (Some (object n))")
      case True
      with Some v Cons.IH [of n j] show ?thesis by simp
    next
      case False
      with Some v show ?thesis by simp
    qed
  qed
qed

lemma addressed_Some:
  "\<not> id_out_of_range c ids \<Longrightarrow> \<not> slot_empty c ids \<Longrightarrow> \<exists>n. addressed c ids = Some n"
proof (induction ids arbitrary: c)
  case Nil
  show ?case by simp
next
  case (Cons i ids)
  then show ?case
    by (cases "valid_id c i"; cases "Node_item c i") simp_all
qed

lemma lookupObject_cases:
  "lookupObject root chain =
     (if depth_exceeded chain \<or> id_out_of_range root chain \<or> slot_empty root chain
         \<or> non_container_reached root chain
      then None else addressed root chain)"
proof (cases chain)
  case Nil
  then show ?thesis
    by (simp add: lookupObject_def depth_exceeded_def)
next
  case (Cons i ids)
  then show ?thesis
    by (simp add: lookupObject_def depth_exceeded_def MAX_CONTAINER_DEPTH_def resolve_cases)
qed

lemmas example_defs =
  example_root_def example_child_def example_leaf_def empty_root_def
  Node_item_def valid_id_def Node_size_def objectFlags_values ObjectFlags_defs hasFlags_and

text \<open>The three resolutions of the spec's example.\<close>

lemma lookupObject_examples:
  "lookupObject example_root [1, 2] = Some example_leaf"
  "lookupObject example_root [1, 2, 0] = None"
  "lookupObject example_root [9] = None"
  by (simp_all add: lookupObject_def MAX_CONTAINER_DEPTH_def example_defs)

text \<open>
  Claim C3 fails as stated: resolution also returns null when the slot an id selects is
  empty. On a root of size 3 with nothing installed, the chain \<open>[1]\<close> has depth 1, its
  id is in range and no object that is not a container is reached, yet the result is
  null.
\<close>

theorem lookupObject_null_at_empty_slot:
  "lookupObject empty_root [1] = None \<and> \<not> depth_exceeded [1] \<and>
   \<not> id_out_of_range empty_root [1] \<and> \<not> non_container_reached empty_root [1]"
  by (simp add: lookupObject_def MAX_CONTAINER_DEPTH_def depth_exceeded_def example_defs)

text \<open>
  Claim C3, amended. Id-chain resolution from a root container returns a null object,
  as a value, in exactly these cases: the depth of the chain exceeds
  \<open>MAX_CONTAINER_DEPTH\<close> (3), an id is out of range for the current container, the
  slot an id selects is empty, or an object that is not a container is reached while
  ids remain in the chain; otherwise it returns the addressed object.
\<close>

theorem lookupObject_fails_exactly:
  "(lookupObject root chain = None \<longleftrightarrow>
      depth_exceeded chain \<or> id_out_of_range root chain \<or> slot_empty root chain
        \<or> non_container_reached root chain) \<and>
   (lookupObject root chain \<noteq> None \<longrightarrow> lookupObject root chain = addressed root chain)"
proof (cases "depth_exceeded chain \<or> id_out_of_range root chain \<or> slot_empty root chain
    \<or> non_container_reached root chain")
  case True
  then show ?thesis by (simp add: lookupObject_cases)
next
  case False
  then obtain n where "addressed root chain = Some n"
    using addressed_Some [of root chain] by auto
  with False show ?thesis by (simp add: lookupObject_cases)
qed

text \<open>
  On the spec's example: \<open>[1, 2]\<close> resolves to the leaf, \<open>[1, 2, 0]\<close> meets the leaf
  with an id remaining, \<open>[9]\<close> is out of range and \<open>[1, 2, 0, 0]\<close> is too deep.
\<close>

theorem lookupObject_fails_exactly_witness:
  "lookupObject example_root [1, 2] \<noteq> None \<and>
   lookupObject example_root [1, 2] = addressed example_root [1, 2] \<and>
   addressed example_root [1, 2] = Some example_leaf \<and>
   lookupObject example_root [1, 2, 0] = None \<and>
   non_container_reached example_root [1, 2, 0] \<and>
   lookupObject example_root [9] = None \<and> id_out_of_range example_root [9] \<and>
   lookupObject example_root [1, 2, 0, 0] = None \<and> depth_exceeded [1, 2, 0, 0]"
  using lookupObject_fails_exactly [of example_root "[1, 2]"]
    lookupObject_fails_exactly [of example_root "[1, 2, 0]"]
    lookupObject_fails_exactly [of example_root "[9]"]
    lookupObject_fails_exactly [of example_root "[1, 2, 0, 0]"]
  by (simp add: depth_exceeded_def example_defs)

end
